theory Spec2Isabelle
  imports Main
begin

unbundle bit_operations_syntax

section \<open>The operating system, as create\_file.py uses it\<close>

text \<open>
  The module calls \<^verbatim>\<open>os.path.exists\<close>, \<^verbatim>\<open>os.path.dirname\<close>, \<^verbatim>\<open>os.makedirs\<close> and
  \<^verbatim>\<open>open\<close>, in text mode, for reading and for writing, on a POSIX host. The filesystem
  is a map from paths to nodes; a file holds its characters as they are stored. Paths are
  compared as strings, so they are taken in normal form (no repeated or trailing slash, no
  dot components, no symbolic links). Whether an operation on a path is refused is part of
  the state: a fault map gives the error text of the exception that the operation raises.
  \<^item> \<open>read_fault\<close>: the \<^verbatim>\<open>OSError\<close> of opening or reading the file;
  \<^item> \<open>decode_fault\<close>: the \<^verbatim>\<open>UnicodeDecodeError\<close> of a file whose bytes are no text in
    the encoding of the process;
  \<^item> \<open>open_fault\<close>: the \<^verbatim>\<open>OSError\<close> of opening the file for writing, which leaves
    it as it is;
  \<^item> \<open>write_fault\<close>: the \<^verbatim>\<open>OSError\<close> of writing or closing the opened file, with the
    number of characters that reached it;
  \<^item> \<open>encode_fault\<close>: the \<^verbatim>\<open>UnicodeEncodeError\<close> of a content that the encoding of
    the process cannot express;
  \<^item> \<open>mkdir_fault\<close>: the \<^verbatim>\<open>OSError\<close> of creating a directory.
\<close>

type_synonym path = string

record attrs =
  file_owner :: string
  file_group :: string
  file_mode :: nat

datatype node = Dir nat | File string attrs

datatype exn = OSError string | UnicodeDecodeError string | UnicodeEncodeError string

record filesystem =
  nodes :: "path \<rightharpoonup> node"
  read_fault :: "path \<rightharpoonup> string"
  decode_fault :: "path \<rightharpoonup> string"
  open_fault :: "path \<rightharpoonup> string"
  write_fault :: "path \<rightharpoonup> string \<times> nat"
  encode_fault :: "string \<rightharpoonup> string"
  mkdir_fault :: "path \<rightharpoonup> string"
  process_user :: string
  process_group :: string
  umask :: nat

definition ENOENT :: string where
  "ENOENT = ''No such file or directory''"

definition EISDIR :: string where
  "EISDIR = ''Is a directory''"

definition ENOTDIR :: string where
  "ENOTDIR = ''Not a directory''"

definition EEXIST :: string where
  "EEXIST = ''File exists''"

text \<open>The permission bits \<open>m\<close> with the bits of the umask cleared.\<close>

definition apply_umask :: "nat \<Rightarrow> nat \<Rightarrow> nat" where
  "apply_umask um m = m - (m AND um)"

text \<open>A file created by \<^verbatim>\<open>open\<close> belongs to the process and has mode 0666 under the umask.\<close>

definition creation_attrs :: "filesystem \<Rightarrow> attrs" where
  "creation_attrs fs =
     \<lparr>file_owner = process_user fs, file_group = process_group fs,
      file_mode = apply_umask (umask fs) 438\<rparr>"

text \<open>\<^verbatim>\<open>os.path.exists(path)\<close>: the empty path never exists.\<close>

definition os_path_exists :: "filesystem \<Rightarrow> path \<Rightarrow> bool" where
  "os_path_exists fs p = (p \<noteq> [] \<and> nodes fs p \<noteq> None)"

text \<open>
  \<^verbatim>\<open>os.path.dirname(p)\<close> of posixpath: the part of \<open>p\<close> up to its last slash, with the
  trailing slashes of that part removed unless it consists of slashes only.
\<close>

definition dirname :: "path \<Rightarrow> path" where
  "dirname p =
     (let head = rev (dropWhile (\<lambda>c. c \<noteq> CHR ''/'') (rev p))
      in if head \<noteq> [] \<and> \<not> list_all (\<lambda>c. c = CHR ''/'') head
         then rev (dropWhile (\<lambda>c. c = CHR ''/'') (rev head))
         else head)"

text \<open>The path itself and the directories above it, outermost first.\<close>

definition path_prefixes :: "path \<Rightarrow> path list" where
  "path_prefixes d =
     map (\<lambda>i. take i d) (filter (\<lambda>i. d ! i = CHR ''/'') [1..<length d]) @ [d]"

definition is_file :: "filesystem \<Rightarrow> path \<Rightarrow> bool" where
  "is_file fs p = (case nodes fs p of Some (File c a) \<Rightarrow> True | _ \<Rightarrow> False)"

text \<open>
  \<^verbatim>\<open>os.makedirs(d, mode=m, exist_ok=True)\<close>: creates \<open>d\<close> and the missing directories
  above it; fails when the operating system refuses, or when a path on the way is a file.
  The mode goes to the leaf only; the directories above it get mode 0777. Both are taken
  under the umask. Nodes that exist stay as they are.
\<close>

definition makedirs :: "filesystem \<Rightarrow> path \<Rightarrow> nat \<Rightarrow> string + filesystem" where
  "makedirs fs d m =
     (case mkdir_fault fs d of
        Some e \<Rightarrow> Inl e
      | None \<Rightarrow>
          if d = [] then Inl ENOENT
          else if is_file fs d then Inl EEXIST
          else if list_ex (is_file fs) (path_prefixes d) then Inl ENOTDIR
          else Inr (fs\<lparr>nodes :=
                 (\<lambda>p. if nodes fs p \<noteq> None then nodes fs p
                      else if p = d then Some (Dir (apply_umask (umask fs) m))
                      else if p \<in> set (path_prefixes d)
                           then Some (Dir (apply_umask (umask fs) 511))
                      else None)\<rparr>))"

text \<open>
  Reading in text mode turns the line ends CR LF and CR into LF
  (\<^verbatim>\<open>open(path, 'r')\<close> has \<^verbatim>\<open>newline=None\<close>).
\<close>

fun universal_newlines :: "string \<Rightarrow> string" where
  "universal_newlines [] = []"
| "universal_newlines [c] = (if c = CHR 0x0D then [CHR 0x0A] else [c])"
| "universal_newlines (c # d # cs) =
     (if c = CHR 0x0D \<and> d = CHR 0x0A then CHR 0x0A # universal_newlines cs
      else if c = CHR 0x0D then CHR 0x0A # universal_newlines (d # cs)
      else c # universal_newlines (d # cs))"

text \<open>
  \<^verbatim>\<open>with open(p, 'r') as f: f.read()\<close>: the text of the file, or the exception raised.
\<close>

definition open_read :: "filesystem \<Rightarrow> path \<Rightarrow> exn + string" where
  "open_read fs p =
     (if p = [] then Inl (OSError ENOENT)
      else case nodes fs p of
             None \<Rightarrow> Inl (OSError ENOENT)
           | Some (Dir m) \<Rightarrow> Inl (OSError EISDIR)
           | Some (File stored a) \<Rightarrow>
               (case read_fault fs p of
                  Some e \<Rightarrow> Inl (OSError e)
                | None \<Rightarrow>
                    (case decode_fault fs p of
                       Some u \<Rightarrow> Inl (UnicodeDecodeError u)
                     | None \<Rightarrow> Inr (universal_newlines stored))))"

text \<open>The file at \<open>p\<close> holds the characters \<open>s\<close>, written as text by the process.\<close>

definition store :: "filesystem \<Rightarrow> path \<Rightarrow> string \<Rightarrow> attrs \<Rightarrow> filesystem" where
  "store fs p s a =
     fs\<lparr>nodes := (nodes fs)(p \<mapsto> File s a), decode_fault := (decode_fault fs)(p := None)\<rparr>"

text \<open>
  \<^verbatim>\<open>f.write(new)\<close> and the close of a file that \<^verbatim>\<open>open(p, 'w')\<close> has opened, and so
  emptied. A content that cannot be encoded raises at once and leaves the file empty; a
  write that the operating system refuses leaves the characters that reached the file. On
  a POSIX host writing in text mode stores LF as it is.
\<close>

definition write_opened ::
    "filesystem \<Rightarrow> path \<Rightarrow> attrs \<Rightarrow> string \<Rightarrow> exn option \<times> filesystem" where
  "write_opened fs p a new =
     (case encode_fault fs new of
        Some u \<Rightarrow> (Some (UnicodeEncodeError u), store fs p [] a)
      | None \<Rightarrow>
          (case write_fault fs p of
             Some (e, n) \<Rightarrow> (Some (OSError e), store fs p (take n new) a)
           | None \<Rightarrow> (None, store fs p new a)))"

text \<open>
  \<^verbatim>\<open>with open(p, 'w') as f: f.write(new)\<close>: the exception raised, if any, and the
  filesystem left. Mode \<^verbatim>\<open>'w'\<close> empties an existing file, which keeps its owner, group
  and mode, or creates a new one in an existing directory. The empty directory name is the
  current directory. A refused open leaves the filesystem as it is.
\<close>

definition open_write :: "filesystem \<Rightarrow> path \<Rightarrow> string \<Rightarrow> exn option \<times> filesystem" where
  "open_write fs p new =
     (if p = [] then (Some (OSError ENOENT), fs)
      else case open_fault fs p of
        Some e \<Rightarrow> (Some (OSError e), fs)
      | None \<Rightarrow>
          (case nodes fs p of
             Some (Dir m) \<Rightarrow> (Some (OSError EISDIR), fs)
           | Some (File old a) \<Rightarrow> write_opened fs p a new
           | None \<Rightarrow>
               if dirname p = [] then write_opened fs p (creation_attrs fs) new
               else case nodes fs (dirname p) of
                      Some (Dir m) \<Rightarrow> write_opened fs p (creation_attrs fs) new
                    | Some (File old a) \<Rightarrow> (Some (OSError ENOTDIR), fs)
                    | None \<Rightarrow> (Some (OSError ENOENT), fs)))"

text \<open>The characters a file holds, its attributes, and its text as a read gives it.\<close>

definition file_content :: "filesystem \<Rightarrow> path \<Rightarrow> string option" where
  "file_content fs p = (case nodes fs p of Some (File c a) \<Rightarrow> Some c | _ \<Rightarrow> None)"

definition file_attrs :: "filesystem \<Rightarrow> path \<Rightarrow> attrs option" where
  "file_attrs fs p = (case nodes fs p of Some (File c a) \<Rightarrow> Some a | _ \<Rightarrow> None)"

definition text_of :: "filesystem \<Rightarrow> path \<Rightarrow> string option" where
  "text_of fs p = map_option universal_newlines (file_content fs p)"

section \<open>The host: AnsibleModule\<close>

text \<open>
  \<open>params\<close> are the arguments of \<open>module_args\<close>. The mode string is kept as the
  permission bits it denotes. \<open>check_mode\<close> and \<open>diff_mode\<close> (\<^verbatim>\<open>module._diff\<close>) are
  set by the host. \<open>pid\<close> and \<open>timestamp\<close> are the tokens of the backup suffix, and
  \<open>backup_error\<close> is the text of the exception, if any, that the host's backup helper raises.
\<close>

record module_params =
  param_path :: path
  param_content :: string
  param_owner :: "string option"
  param_group :: "string option"
  param_mode :: "nat option"
  param_force :: bool
  param_backup :: bool

record ansible_module =
  params :: module_params
  check_mode :: bool
  diff_mode :: bool
  pid :: string
  timestamp :: string
  backup_error :: "string option"

record file_args =
  fa_path :: path
  fa_owner :: "string option"
  fa_group :: "string option"
  fa_mode :: "nat option"

definition load_file_common_arguments :: "module_params \<Rightarrow> file_args" where
  "load_file_common_arguments ps =
     \<lparr>fa_path = param_path ps, fa_owner = param_owner ps, fa_group = param_group ps,
      fa_mode = param_mode ps\<rparr>"

text \<open>The attributes a file has once the requested owner, group and mode are applied.\<close>

definition requested_attrs :: "file_args \<Rightarrow> attrs \<Rightarrow> attrs" where
  "requested_attrs fa a =
     \<lparr>file_owner = (case fa_owner fa of None \<Rightarrow> file_owner a | Some v \<Rightarrow> v),
      file_group = (case fa_group fa of None \<Rightarrow> file_group a | Some v \<Rightarrow> v),
      file_mode = (case fa_mode fa of None \<Rightarrow> file_mode a | Some v \<Rightarrow> v)\<rparr>"

text \<open>
  Modelled from the spec: \<^verbatim>\<open>module.set_fs_attributes_if_different(file_args, changed)\<close> is
  a helper of the host runtime, not of this repository. The spec, step 10 of the algorithm
  and the capability interface of its design notes: apply owner, group and mode if
  specified and different from the current ones; the answer is true if \<open>changed\<close> was
  true already or any attribute was altered.
\<close>

definition set_fs_attributes_if_different ::
    "filesystem \<Rightarrow> file_args \<Rightarrow> bool \<Rightarrow> bool \<times> filesystem" where
  "set_fs_attributes_if_different fs fa changed =
     (case nodes fs (fa_path fa) of
        Some (File c a) \<Rightarrow>
          if requested_attrs fa a = a then (changed, fs)
          else (True, fs\<lparr>nodes := (nodes fs)(fa_path fa \<mapsto> File c (requested_attrs fa a))\<rparr>)
      | _ \<Rightarrow> (changed, fs))"

text \<open>
  Modelled from the spec: \<^verbatim>\<open>module.backup_local(path)\<close> is a helper of the host runtime,
  not of this repository. The spec, step 8 of the algorithm: copy the existing file to a
  new sibling path suffixed with a process id and a timestamp token,
  \<^verbatim>\<open><path>.<pid>.<timestamp>~\<close>, and return that path. It may raise an exception.
\<close>

definition backup_local :: "ansible_module \<Rightarrow> filesystem \<Rightarrow> path \<Rightarrow> string + (path \<times> filesystem)" where
  "backup_local module fs fn =
     (case backup_error module of
        Some e \<Rightarrow> Inl e
      | None \<Rightarrow>
          (case nodes fs fn of
             None \<Rightarrow> Inr ([], fs)
           | Some (Dir m) \<Rightarrow> Inl EISDIR
           | Some (File c a) \<Rightarrow>
               (let backupdest = fn @ ''.'' @ pid module @ ''.'' @ timestamp module @ ''~''
                in Inr (backupdest,
                        fs\<lparr>nodes := (nodes fs)(backupdest \<mapsto> File c a),
                           decode_fault := (decode_fault fs)(backupdest := decode_fault fs fn)\<rparr>))))"

section \<open>create\_file.py\<close>

text \<open>
  The messages of the module, by their template and the values put in:
  \<open>FileExistsForceNo path\<close> is "file \<open>path\<close> already exists and force=no",
  \<open>CannotReadExisting path e\<close> is "could not read the existing file \<open>path\<close>: \<open>e\<close>",
  \<open>CannotWriteFile path e\<close> is "could not write the file \<open>path\<close>: \<open>e\<close>", and the warning
  \<open>BackupNotCreated e\<close> is "could not create the backup copy: \<open>e\<close>".
\<close>

datatype fail_msg =
    FileExistsForceNo path
  | CannotReadExisting path string
  | CannotWriteFile path string

datatype warning = BackupNotCreated string

record diff_pair =
  before :: string
  after :: string

text \<open>
  The result dictionary. A key that may be missing is an option: \<open>res_backup_file\<close> is
  \<open>None\<close> when the key is not set; \<open>diff\<close> is \<open>None\<close> when the key is not set and
  \<open>Some None\<close> when it is set to Python's \<^verbatim>\<open>None\<close>.
\<close>

record result =
  changed :: bool
  res_path :: string
  res_content :: string
  res_backup_file :: "string option"
  diff :: "diff_pair option option"

text \<open>
  How the run ends: \<^verbatim>\<open>module.exit_json(**result)\<close>, \<^verbatim>\<open>module.fail_json(msg=..., **result)\<close>,
  or an exception that no handler of the module catches, which ends the process with a
  traceback and no result.
\<close>

datatype outcome = exit_json result | fail_json fail_msg result | uncaught exn

text \<open>The error kinds of the spec's taxonomy, by message.\<close>

datatype error_kind = PreconditionFailed | IOError

fun kind :: "fail_msg \<Rightarrow> error_kind" where
  "kind (FileExistsForceNo p) = PreconditionFailed"
| "kind (CannotReadExisting p e) = IOError"
| "kind (CannotWriteFile p e) = IOError"

fun result_of :: "outcome \<Rightarrow> result option" where
  "result_of (exit_json r) = Some r"
| "result_of (fail_json msg r) = Some r"
| "result_of (uncaught x) = None"

text \<open>
  \<open>write_file\<close> catches \<^verbatim>\<open>IOError\<close> and \<^verbatim>\<open>OSError\<close> only: it gives the pair it returns,
  or the other exception that goes through it, and the filesystem left.
\<close>

definition write_file ::
    "ansible_module \<Rightarrow> filesystem \<Rightarrow> path \<Rightarrow> string
       \<Rightarrow> (exn + bool \<times> string option) \<times> filesystem" where
  "write_file module fs path content =
     (let directory = dirname path
      in case (if directory \<noteq> [] \<and> \<not> os_path_exists fs directory
               then makedirs fs directory 493 else Inr fs) of
           Inl e \<Rightarrow> (Inr (False, Some e), fs)
         | Inr fs1 \<Rightarrow>
             (case open_write fs1 path content of
                (None, fs2) \<Rightarrow> (Inr (True, None), fs2)
              | (Some (OSError e), fs2) \<Rightarrow> (Inr (False, Some e), fs2)
              | (Some x, fs2) \<Rightarrow> (Inl x, fs2)))"

text \<open>
  \<open>get_file_diff\<close> catches \<^verbatim>\<open>IOError\<close> and \<^verbatim>\<open>OSError\<close> only: it gives the value it
  returns, or the other exception that goes through it.
\<close>

definition get_file_diff ::
    "ansible_module \<Rightarrow> filesystem \<Rightarrow> path \<Rightarrow> string \<Rightarrow> exn + diff_pair option" where
  "get_file_diff module fs path content =
     (if os_path_exists fs path then
        (case open_read fs path of
           Inr old_content \<Rightarrow> Inr (Some \<lparr>before = old_content, after = content\<rparr>)
         | Inl (OSError e) \<Rightarrow> Inr None
         | Inl x \<Rightarrow> Inl x)
      else Inr None)"

text \<open>\<open>create_backup\<close> catches every \<^verbatim>\<open>Exception\<close> of the helper and warns.\<close>

definition create_backup ::
    "ansible_module \<Rightarrow> filesystem \<Rightarrow> path \<Rightarrow> string option \<times> warning list \<times> filesystem" where
  "create_backup module fs path =
     (if os_path_exists fs path then
        (case backup_local module fs path of
           Inr (backup_file, fs1) \<Rightarrow> (Some backup_file, [], fs1)
         | Inl e \<Rightarrow> (None, [BackupNotCreated e], fs))
      else (None, [], fs))"

definition initial_result :: result where
  "initial_result =
     \<lparr>changed = False, res_path = [], res_content = [], res_backup_file = None, diff = None\<rparr>"

text \<open>
  \<open>run_module\<close> gives the outcome, the warnings logged and the filesystem the run leaves.
  \<^verbatim>\<open>fail_json\<close> and \<^verbatim>\<open>exit_json\<close> end the process, so each is a return.
\<close>

definition run_module :: "ansible_module \<Rightarrow> filesystem \<Rightarrow> outcome \<times> warning list \<times> filesystem" where
  "run_module module fs =
     (let result = initial_result;
          path = param_path (params module);
          content = param_content (params module);
          force = param_force (params module);
          backup = param_backup (params module);
          file_exists = os_path_exists fs path
      in if \<not> force \<and> file_exists then (fail_json (FileExistsForceNo path) result, [], fs)
         else
           case (if file_exists then map_sum id Some (open_read fs path) else Inr None) of
             Inl (OSError e) \<Rightarrow> (fail_json (CannotReadExisting path e) result, [], fs)
           | Inl x \<Rightarrow> (uncaught x, [], fs)
           | Inr existing_content \<Rightarrow>
               (let result = (if \<not> file_exists \<or> existing_content \<noteq> Some content
                              then result\<lparr>changed := True\<rparr> else result);
                    result = result\<lparr>res_path := path, res_content := content\<rparr>
                in case (if diff_mode module \<or> check_mode module
                         then map_sum id Some (get_file_diff module fs path content)
                         else Inr None) of
                     Inl x \<Rightarrow> (uncaught x, [], fs)
                   | Inr diff_key \<Rightarrow>
               (let result = (case diff_key of
                                Some d \<Rightarrow> result\<lparr>diff := Some d\<rparr> | None \<Rightarrow> result)
                in if check_mode module then (exit_json result, [], fs)
                   else if \<not> changed result then
                     (let file_args = load_file_common_arguments (params module);
                          (c, fs1) = set_fs_attributes_if_different fs file_args (changed result);
                          result = (if c then result\<lparr>changed := True\<rparr> else result)
                      in (exit_json result, [], fs1))
                   else
                     (let (backup_file, warns, fs1) =
                            (if backup \<and> file_exists then create_backup module fs path
                             else (None, [], fs));
                          result = (if backup_file \<noteq> None \<and> backup_file \<noteq> Some []
                                    then result\<lparr>res_backup_file := backup_file\<rparr> else result)
                      in case write_file module fs1 path content of
                           (Inl x, fs2) \<Rightarrow> (uncaught x, warns, fs2)
                         | (Inr (success, error_msg), fs2) \<Rightarrow>
                             if \<not> success
                             then (fail_json (CannotWriteFile path
                                                (case error_msg of Some e \<Rightarrow> e | None \<Rightarrow> []))
                                     result, warns, fs2)
                             else
                               (let file_args = load_file_common_arguments (params module);
                                    (c, fs3) = set_fs_attributes_if_different fs2 file_args
                                                 (changed result);
                                    result = (if c then result\<lparr>changed := True\<rparr> else result)
                                in (exit_json result, warns, fs3))))))"

section \<open>Notions used to state the properties\<close>

text \<open>
  The requested owner, group or mode differs from what the file at the path has;
  the file's attributes after a run are not those before it.
\<close>

definition attrs_differ :: "filesystem \<Rightarrow> file_args \<Rightarrow> bool" where
  "attrs_differ fs fa =
     (case file_attrs fs (fa_path fa) of Some a \<Rightarrow> requested_attrs fa a \<noteq> a | None \<Rightarrow> False)"

definition attrs_altered :: "filesystem \<Rightarrow> filesystem \<Rightarrow> path \<Rightarrow> bool" where
  "attrs_altered fs fs' p = (file_attrs fs' p \<noteq> file_attrs fs p)"

definition backup_path :: "ansible_module \<Rightarrow> path \<Rightarrow> path" where
  "backup_path module fn = fn @ ''.'' @ pid module @ ''.'' @ timestamp module @ ''~''"

text \<open>The filesystem on which the content is written: after the backup step.\<close>

definition before_write :: "ansible_module \<Rightarrow> filesystem \<Rightarrow> filesystem" where
  "before_write module fs =
     snd (snd (if param_backup (params module) \<and> os_path_exists fs (param_path (params module))
               then create_backup module fs (param_path (params module))
               else (None, [], fs)))"

subsection \<open>A concrete host and filesystem\<close>

definition example_attrs :: attrs where
  "example_attrs = \<lparr>file_owner = ''root'', file_group = ''root'', file_mode = 420\<rparr>"

definition example_fs :: filesystem where
  "example_fs =
     \<lparr>nodes = [''/tmp'' \<mapsto> Dir 493, ''/tmp/a.txt'' \<mapsto> File ''hello'' example_attrs],
      read_fault = Map.empty, decode_fault = Map.empty, open_fault = Map.empty,
      write_fault = Map.empty, encode_fault = Map.empty, mkdir_fault = Map.empty,
      process_user = ''root'', process_group = ''root'', umask = 18\<rparr>"

text \<open>The same with a file of two lines ended by CR LF.\<close>

definition crlf_fs :: filesystem where
  "crlf_fs =
     example_fs\<lparr>nodes := [''/tmp'' \<mapsto> Dir 493,
                           ''/tmp/a.txt'' \<mapsto> File [CHR ''a'', CHR 0x0D, CHR 0x0A, CHR ''b'']
                                                 example_attrs]\<rparr>"

definition example_params :: module_params where
  "example_params =
     \<lparr>param_path = ''/tmp/a.txt'', param_content = ''world'', param_owner = None,
      param_group = None, param_mode = None, param_force = True, param_backup = True\<rparr>"

definition example_module :: ansible_module where
  "example_module =
     \<lparr>params = example_params, check_mode = False, diff_mode = False, pid = ''12345'',
      timestamp = ''2024-01-01@12:00:00'', backup_error = None\<rparr>"

lemmas example_defs = example_attrs_def example_fs_def crlf_fs_def example_params_def
  example_module_def

lemmas model_defs = run_module_def initial_result_def os_path_exists_def open_read_def
  create_backup_def backup_local_def write_file_def dirname_def open_write_def write_opened_def
  store_def get_file_diff_def set_fs_attributes_if_different_def load_file_common_arguments_def
  requested_attrs_def file_content_def file_attrs_def text_of_def attrs_differ_def
  attrs_altered_def backup_path_def before_write_def creation_attrs_def apply_umask_def Let_def

section \<open>The branches of run\_module\<close>

lemma fa_path_load [simp]: "fa_path (load_file_common_arguments ps) = param_path ps"
  by (simp add: load_file_common_arguments_def)

lemma open_read_Inr_file:
  "open_read fs p = Inr t \<Longrightarrow>
     \<exists>s a. nodes fs p = Some (File s a) \<and> t = universal_newlines s"
  by (auto simp: open_read_def split: if_splits option.splits node.splits)


lemma open_read_exn:
  "open_read fs p = Inl x \<Longrightarrow> (\<exists>e. x = OSError e) \<or> (\<exists>u. x = UnicodeDecodeError u)"
  by (auto simp: open_read_def split: if_splits option.splits node.splits)

lemma get_file_diff_after_read:
  "os_path_exists fs p \<Longrightarrow> open_read fs p = Inr old \<Longrightarrow>
     get_file_diff module fs p c = Inr (Some \<lparr>before = old, after = c\<rparr>)"
  by (simp add: get_file_diff_def)

lemma get_file_diff_absent:
  "\<not> os_path_exists fs p \<Longrightarrow> get_file_diff module fs p c = Inr None"
  by (simp add: get_file_diff_def)

lemma run_module_force_no:
  assumes "\<not> param_force (params module)" "os_path_exists fs (param_path (params module))"
  shows "run_module module fs =
           (fail_json (FileExistsForceNo (param_path (params module))) initial_result, [], fs)"
  using assms by (simp add: run_module_def)

lemma run_module_read_error:
  assumes "param_force (params module)" "os_path_exists fs (param_path (params module))"
    "open_read fs (param_path (params module)) = Inl (OSError e)"
  shows "run_module module fs =
           (fail_json (CannotReadExisting (param_path (params module)) e) initial_result, [], fs)"
  using assms by (simp add: run_module_def)

lemma run_module_read_uncaught:
  assumes "param_force (params module)" "os_path_exists fs (param_path (params module))"
    "open_read fs (param_path (params module)) = Inl (UnicodeDecodeError u)"
  shows "run_module module fs = (uncaught (UnicodeDecodeError u), [], fs)"
  using assms by (simp add: run_module_def)

lemma run_module_check_mode_absent:
  assumes "check_mode module" "\<not> os_path_exists fs (param_path (params module))"
  shows "run_module module fs =
           (exit_json \<lparr>changed = True, res_path = param_path (params module),
                       res_content = param_content (params module), res_backup_file = None,
                       diff = Some None\<rparr>, [], fs)"
  using assms by (simp add: run_module_def initial_result_def get_file_diff_def Let_def)

lemma run_module_check_mode_present:
  assumes "check_mode module" "param_force (params module)"
    "os_path_exists fs (param_path (params module))"
    "open_read fs (param_path (params module)) = Inr old"
  shows "run_module module fs =
           (exit_json \<lparr>changed = (old \<noteq> param_content (params module)),
                       res_path = param_path (params module),
                       res_content = param_content (params module), res_backup_file = None,
                       diff = Some (Some \<lparr>before = old, after = param_content (params module)\<rparr>)\<rparr>,
            [], fs)"
  using assms by (simp add: run_module_def initial_result_def get_file_diff_def Let_def)

lemma run_module_unchanged_content:
  assumes "\<not> check_mode module" "param_force (params module)"
    "os_path_exists fs (param_path (params module))"
    "open_read fs (param_path (params module)) = Inr (param_content (params module))"
  shows "run_module module fs =
           (exit_json \<lparr>changed = fst (set_fs_attributes_if_different fs
                                        (load_file_common_arguments (params module)) False),
                       res_path = param_path (params module),
                       res_content = param_content (params module), res_backup_file = None,
                       diff = (if diff_mode module
                               then Some (Some \<lparr>before = param_content (params module),
                                                 after = param_content (params module)\<rparr>)
                               else None)\<rparr>,
            [], snd (set_fs_attributes_if_different fs
                       (load_file_common_arguments (params module)) False))"
  using assms
  by (simp add: run_module_def initial_result_def get_file_diff_def Let_def split: prod.splits)

lemma set_fs_attributes_True [simp]:
  "fst (set_fs_attributes_if_different fs fa True) = True"
  by (simp add: set_fs_attributes_if_different_def split: option.splits node.splits)

text \<open>The diff key of a run that goes on to write.\<close>

lemma diff_key_write:
  assumes "\<not> os_path_exists fs p \<or> open_read fs p = Inr old"
  shows "(if dm then map_sum id Some (get_file_diff module fs p c) else Inr None)
           = Inr (if dm then Some (if os_path_exists fs p
                                   then Some \<lparr>before = old, after = c\<rparr> else None)
                  else None)"
  using assms by (auto simp: get_file_diff_def)

lemma run_module_write_outcome:
  assumes nc: "\<not> check_mode module"
    and reach: "\<not> os_path_exists fs (param_path (params module)) \<or>
     (param_force (params module) \<and> open_read fs (param_path (params module)) = Inr old \<and>
      old \<noteq> param_content (params module))"
    and bk: "(if param_backup (params module) \<and> os_path_exists fs (param_path (params module))
          then create_backup module fs (param_path (params module)) else (None, [], fs))
           = (b, warns, fs1)"
    and wr: "write_file module fs1 (param_path (params module)) (param_content (params module))
           = (w, fs2)"
  shows "run_module module fs =
     (case w of
        Inl x \<Rightarrow> (uncaught x, warns, fs2)
      | Inr (success, error_msg) \<Rightarrow>
          if \<not> success
          then (fail_json (CannotWriteFile (param_path (params module))
                             (case error_msg of Some e \<Rightarrow> e | None \<Rightarrow> []))
                  \<lparr>changed = True, res_path = param_path (params module),
                    res_content = param_content (params module),
                    res_backup_file = (if b \<noteq> None \<and> b \<noteq> Some [] then b else None),
                    diff = (if diff_mode module
                            then Some (if os_path_exists fs (param_path (params module))
                                       then Some \<lparr>before = old,
                                                   after = param_content (params module)\<rparr>
                                       else None)
                            else None)\<rparr>,
                warns, fs2)
          else (exit_json
                  \<lparr>changed = True, res_path = param_path (params module),
                    res_content = param_content (params module),
                    res_backup_file = (if b \<noteq> None \<and> b \<noteq> Some [] then b else None),
                    diff = (if diff_mode module
                            then Some (if os_path_exists fs (param_path (params module))
                                       then Some \<lparr>before = old,
                                                   after = param_content (params module)\<rparr>
                                       else None)
                            else None)\<rparr>,
                warns,
                snd (set_fs_attributes_if_different fs2
                       (load_file_common_arguments (params module)) True)))"
proof (cases "os_path_exists fs (param_path (params module))")
  case False
  with bk have b: "b = None" "warns = []" "fs1 = fs" by auto
  show ?thesis
  proof (cases w)
    case (Inl x)
    with nc False b wr show ?thesis
      by (simp add: run_module_def get_file_diff_absent initial_result_def Let_def)
  next
    case (Inr pr)
    then obtain ok err where "w = Inr (ok, err)" by (cases pr) auto
    with nc False b wr show ?thesis
      by (simp add: run_module_def get_file_diff_absent initial_result_def Let_def split_beta)
  qed
next
  case True
  with reach have f: "param_force (params module)"
    and r: "open_read fs (param_path (params module)) = Inr old"
    and d: "old \<noteq> param_content (params module)" by auto
  show ?thesis
  proof (cases w)
    case (Inl x)
    with nc True f r d wr bk show ?thesis
      by (simp add: run_module_def get_file_diff_after_read initial_result_def Let_def
          split: if_splits)
  next
    case (Inr pr)
    then obtain ok err where "w = Inr (ok, err)" by (cases pr) auto
    with nc True f r d wr bk show ?thesis
      by (simp add: run_module_def get_file_diff_after_read initial_result_def Let_def
          split_beta split: if_splits)
  qed
qed

section \<open>What the writes and the helpers leave alone\<close>


lemma set_fs_attributes_content:
  "file_content (snd (set_fs_attributes_if_different fs fa ch)) q = file_content fs q"
  by (auto simp: set_fs_attributes_if_different_def file_content_def
      split: option.splits node.splits)



lemma makedirs_keeps_nodes:
  "makedirs fs d m = Inr fs1 \<Longrightarrow> nodes fs q = Some n \<Longrightarrow> nodes fs1 q = Some n"
  by (auto simp: makedirs_def split: option.splits if_splits)

lemma write_opened_cases:
  assumes "write_opened fs p a new = (r, fs1)"
  shows "(r = None \<and> fs1 = store fs p new a)
       \<or> (\<exists>e n. r = Some (OSError e) \<and> write_fault fs p = Some (e, n))
       \<or> (\<exists>u. r = Some (UnicodeEncodeError u) \<and> encode_fault fs new = Some u)"
  using assms by (auto simp: write_opened_def split: option.splits)

lemma write_opened_other:
  "write_opened fs p a new = (r, fs1) \<Longrightarrow> q \<noteq> p \<Longrightarrow> nodes fs1 q = nodes fs q"
  by (auto simp: write_opened_def store_def split: option.splits)

lemma open_write_cases:
  assumes "open_write fs p new = (r, fs1)"
  shows "(r = None \<and> file_content fs1 p = Some new)
       \<or> (\<exists>e. r = Some (OSError e))
       \<or> (\<exists>u. r = Some (UnicodeEncodeError u) \<and> encode_fault fs new = Some u)"
proof -
  have w: "(r = None \<and> file_content fs1 p = Some new)
       \<or> (\<exists>e. r = Some (OSError e))
       \<or> (\<exists>u. r = Some (UnicodeEncodeError u) \<and> encode_fault fs new = Some u)"
    if "write_opened fs p a new = (r, fs1)" for a
    using write_opened_cases[OF that] by (auto simp: store_def file_content_def)
  from assms show ?thesis
    by (auto simp: open_write_def w split: if_splits option.splits node.splits)
qed

lemma open_write_other:
  "open_write fs p new = (r, fs1) \<Longrightarrow> q \<noteq> p \<Longrightarrow> nodes fs1 q = nodes fs q"
  by (auto simp: open_write_def write_opened_other split: if_splits option.splits node.splits)

lemma makedirs_encode_fault:
  "makedirs fs d m = Inr fs1 \<Longrightarrow> encode_fault fs1 = encode_fault fs"
  by (auto simp: makedirs_def split: option.splits if_splits)

lemma write_file_result:
  assumes "write_file module fs p c = (w, fs2)"
  shows "(w = Inr (True, None) \<and> file_content fs2 p = Some c)
       \<or> (\<exists>e. w = Inr (False, Some e))
       \<or> (\<exists>u. w = Inl (UnicodeEncodeError u) \<and> encode_fault fs c = Some u)"
proof (cases "if dirname p \<noteq> [] \<and> \<not> os_path_exists fs (dirname p)
               then makedirs fs (dirname p) 493 else Inr fs")
  case (Inl e)
  with assms show ?thesis by (auto simp: write_file_def Let_def)
next
  case (Inr fs1)
  then have ef: "encode_fault fs1 = encode_fault fs"
    by (auto simp: makedirs_encode_fault split: if_splits)
  obtain r fs3 where ow: "open_write fs1 p c = (r, fs3)" by (cases "open_write fs1 p c") auto
  from open_write_cases[OF ow] consider
    (ok) "r = None" "file_content fs3 p = Some c"
    | (os) e where "r = Some (OSError e)"
    | (enc) u where "r = Some (UnicodeEncodeError u)" "encode_fault fs1 c = Some u"
    by blast
  then show ?thesis
  proof cases
    case ok
    with Inr ow assms show ?thesis by (auto simp: write_file_def Let_def)
  next
    case os
    with Inr ow assms show ?thesis by (auto simp: write_file_def Let_def)
  next
    case enc
    with Inr ow assms ef show ?thesis by (auto simp: write_file_def Let_def)
  qed
qed

lemma write_file_keeps_nodes:
  assumes "write_file module fs p c = (res, fs2)" "nodes fs q = Some n" "q \<noteq> p"
  shows "nodes fs2 q = Some n"
proof (cases "if dirname p \<noteq> [] \<and> \<not> os_path_exists fs (dirname p)
               then makedirs fs (dirname p) 493 else Inr fs")
  case (Inl e)
  with assms show ?thesis by (auto simp: write_file_def Let_def)
next
  case (Inr fs1)
  have n1: "nodes fs1 q = Some n"
  proof (cases "dirname p \<noteq> [] \<and> \<not> os_path_exists fs (dirname p)")
    case True
    with Inr have "makedirs fs (dirname p) 493 = Inr fs1" by simp
    from makedirs_keeps_nodes[OF this assms(2)] show ?thesis .
  next
    case False
    with Inr have "fs1 = fs" by auto
    with assms(2) show ?thesis by simp
  qed
  obtain r fs3 where ow: "open_write fs1 p c = (r, fs3)" by (cases "open_write fs1 p c") auto
  with Inr assms(1) have "fs2 = fs3"
    by (auto simp: write_file_def Let_def split: option.splits exn.splits)
  with open_write_other[OF ow assms(3)] n1 show ?thesis by simp
qed

text \<open>Where the operating system refuses nothing, the write replaces what the file held.\<close>

lemma write_file_overwrites:
  assumes "nodes fs p = Some (File old a)" and "p \<noteq> []"
    and "dirname p = [] \<or> os_path_exists fs (dirname p)"
    and "open_fault fs p = None" and "write_fault fs p = None" and "encode_fault fs c = None"
  shows "write_file module fs p c = (Inr (True, None), store fs p c a)"
  using assms by (auto simp: write_file_def Let_def open_write_def write_opened_def)

lemma write_file_creates:
  assumes "nodes fs p = None" and "p \<noteq> []"
    and "dirname p = [] \<or> (\<exists>m. nodes fs (dirname p) = Some (Dir m))"
    and "open_fault fs p = None" and "write_fault fs p = None" and "encode_fault fs c = None"
  shows "write_file module fs p c = (Inr (True, None), store fs p c (creation_attrs fs))"
  using assms
  by (auto simp: write_file_def Let_def open_write_def write_opened_def os_path_exists_def)

lemma write_file_open_refused:
  assumes "p \<noteq> []" and "dirname p = [] \<or> os_path_exists fs (dirname p)"
    and "open_fault fs p = Some e"
  shows "write_file module fs p c = (Inr (False, Some e), fs)"
  using assms by (auto simp: write_file_def Let_def open_write_def)

lemma backup_path_neq: "backup_path module p \<noteq> p"
  by (simp add: backup_path_def)


lemma length_dirname: "length (dirname p) \<le> length p"
proof -
  have a: "length (dropWhile P xs) \<le> length xs" for P and xs :: string
    by (rule length_dropWhile_le)
  have "length (rev (dropWhile (\<lambda>c. c = CHR ''/'')
          (rev (rev (dropWhile (\<lambda>c. c \<noteq> CHR ''/'') (rev p))))))
        \<le> length (rev (dropWhile (\<lambda>c. c \<noteq> CHR ''/'') (rev p)))"
    using a[of "\<lambda>c. c = CHR ''/''" "rev (rev (dropWhile (\<lambda>c. c \<noteq> CHR ''/'') (rev p)))"]
    by simp
  moreover have "length (rev (dropWhile (\<lambda>c. c \<noteq> CHR ''/'') (rev p))) \<le> length p"
    using a[of "\<lambda>c. c \<noteq> CHR ''/''" "rev p"] by simp
  ultimately show ?thesis by (simp add: dirname_def Let_def)
qed

lemma backup_path_not_dirname: "backup_path module p \<noteq> dirname p"
proof
  assume "backup_path module p = dirname p"
  then have "length (backup_path module p) = length (dirname p)" by simp
  with length_dirname[of p] show False by (simp add: backup_path_def)
qed


lemma create_backup_raises:
  assumes "os_path_exists fs p" "backup_local module fs p = Inl e"
  shows "create_backup module fs p = (None, [BackupNotCreated e], fs)"
  using assms by (simp add: create_backup_def)

text \<open>The backup step touches the backup path only.\<close>

lemma create_backup_frame:
  assumes "create_backup module fs p = (b, w, fs1)"
  shows "open_fault fs1 = open_fault fs \<and> write_fault fs1 = write_fault fs
     \<and> encode_fault fs1 = encode_fault fs
     \<and> (\<forall>q. q \<noteq> backup_path module p \<longrightarrow> nodes fs1 q = nodes fs q)"
  using assms
  by (auto simp: create_backup_def backup_local_def backup_path_def Let_def
      split: if_splits sum.splits option.splits node.splits)

lemma before_write_frame:
  "open_fault (before_write module fs) = open_fault fs
   \<and> write_fault (before_write module fs) = write_fault fs
   \<and> encode_fault (before_write module fs) = encode_fault fs
   \<and> (\<forall>q. q \<noteq> backup_path module (param_path (params module)) \<longrightarrow>
          nodes (before_write module fs) q = nodes fs q)"
proof (cases "param_backup (params module) \<and> os_path_exists fs (param_path (params module))")
  case True
  obtain b w fs1 where cb: "create_backup module fs (param_path (params module)) = (b, w, fs1)"
    by (metis prod.collapse)
  from create_backup_frame[OF cb] True cb show ?thesis by (simp add: before_write_def)
next
  case False
  then show ?thesis by (auto simp: before_write_def)
qed

section \<open>What a whole run reports\<close>

lemma run_module_write_summary:
  assumes nc: "\<not> check_mode module"
    and reach: "\<not> os_path_exists fs (param_path (params module)) \<or>
     (param_force (params module) \<and> open_read fs (param_path (params module)) = Inr old \<and>
      old \<noteq> param_content (params module))"
    and bk: "(if param_backup (params module) \<and> os_path_exists fs (param_path (params module))
          then create_backup module fs (param_path (params module)) else (None, [], fs))
           = (b, warns, fs1)"
  shows "fst (snd (run_module module fs)) = warns
     \<and> (\<forall>r. result_of (fst (run_module module fs)) = Some r \<longrightarrow>
           changed r \<and>
           res_backup_file r = (if b \<noteq> None \<and> b \<noteq> Some [] then b else None) \<and>
           diff r = (if diff_mode module
                     then Some (if os_path_exists fs (param_path (params module))
                                then Some \<lparr>before = old, after = param_content (params module)\<rparr>
                                else None)
                     else None))
     \<and> (\<forall>q n. q \<noteq> param_path (params module) \<and> nodes fs1 q = Some n \<longrightarrow>
           file_content (snd (snd (run_module module fs))) q = file_content fs1 q)
     \<and> ((fst (write_file module fs1 (param_path (params module)) (param_content (params module)))
            = Inr (True, None)
          \<and> (\<exists>r. fst (run_module module fs) = exit_json r)
          \<and> file_content (snd (snd (run_module module fs))) (param_path (params module))
              = Some (param_content (params module)))
        \<or> (\<exists>e. fst (write_file module fs1 (param_path (params module)) (param_content (params module)))
                  = Inr (False, Some e)
             \<and> (\<exists>r. fst (run_module module fs)
                       = fail_json (CannotWriteFile (param_path (params module)) e) r))
        \<or> (\<exists>u. fst (write_file module fs1 (param_path (params module)) (param_content (params module)))
                  = Inl (UnicodeEncodeError u)
             \<and> fst (run_module module fs) = uncaught (UnicodeEncodeError u)
             \<and> encode_fault fs1 (param_content (params module)) = Some u))"
proof -
  let ?p = "param_path (params module)"
  let ?c = "param_content (params module)"
  obtain w fs2 where wr: "write_file module fs1 ?p ?c = (w, fs2)"
    by (metis prod.collapse)
  note run = run_module_write_outcome[OF nc reach bk wr]
  have keep0: "file_content fs2 q = file_content fs1 q"
    if "q \<noteq> ?p" "nodes fs1 q = Some n" for q n
    using write_file_keeps_nodes[OF wr that(2,1)] that(2) by (simp add: file_content_def)
  from write_file_result[OF wr] consider
    (good) "w = Inr (True, None)" "file_content fs2 ?p = Some ?c"
    | (bad) e where "w = Inr (False, Some e)"
    | (enc) u where "w = Inl (UnicodeEncodeError u)" "encode_fault fs1 ?c = Some u" by blast
  then show ?thesis
  proof cases
    case good
    have keep: "file_content (snd (snd (run_module module fs))) q = file_content fs1 q"
      if "q \<noteq> ?p" "nodes fs1 q = Some n" for q n
      using run good keep0[OF that] by (simp add: set_fs_attributes_content)
    from run good wr keep show ?thesis by (simp add: set_fs_attributes_content)
  next
    case bad
    have keep: "file_content (snd (snd (run_module module fs))) q = file_content fs1 q"
      if "q \<noteq> ?p" "nodes fs1 q = Some n" for q n
      using run bad keep0[OF that] by simp
    from run bad wr keep show ?thesis by simp
  next
    case enc
    have keep: "file_content (snd (snd (run_module module fs))) q = file_content fs1 q"
      if "q \<noteq> ?p" "nodes fs1 q = Some n" for q n
      using run enc keep0[OF that] by simp
    from run enc wr keep show ?thesis by simp
  qed
qed



lemma result_diff_early:
  assumes "os_path_exists fs (param_path (params module))"
    "\<not> param_force (params module) \<or> isl (open_read fs (param_path (params module)))"
    "result_of (fst (run_module module fs)) = Some r"
  shows "diff r = None"
proof (cases "param_force (params module)")
  case False
  with assms show ?thesis by (auto simp: run_module_force_no initial_result_def)
next
  case True
  with assms obtain x where x: "open_read fs (param_path (params module)) = Inl x"
    by (cases "open_read fs (param_path (params module))") auto
  from open_read_exn[OF x] show ?thesis
  proof
    assume "\<exists>e. x = OSError e"
    with x True assms show ?thesis by (auto simp: run_module_read_error initial_result_def)
  next
    assume "\<exists>u. x = UnicodeDecodeError u"
    with x True assms show ?thesis by (auto simp: run_module_read_uncaught)
  qed
qed

lemma result_diff_passed:
  assumes pass: "\<not> os_path_exists fs (param_path (params module)) \<or>
     (param_force (params module) \<and> open_read fs (param_path (params module)) = Inr old)"
  shows "(\<forall>r. result_of (fst (run_module module fs)) = Some r \<longrightarrow>
           diff r = (if diff_mode module \<or> check_mode module
                     then Some (if os_path_exists fs (param_path (params module))
                                then Some \<lparr>before = old, after = param_content (params module)\<rparr>
                                else None)
                     else None))
       \<and> (result_of (fst (run_module module fs)) \<noteq> None \<or>
          (\<not> check_mode module \<and>
           (\<exists>u. fst (run_module module fs) = uncaught (UnicodeEncodeError u))))"
proof (cases "check_mode module")
  case True
  show ?thesis
  proof (cases "os_path_exists fs (param_path (params module))")
    case False
    with True show ?thesis by (simp add: run_module_check_mode_absent)
  next
    case ex: True
    with pass have f: "param_force (params module)"
      and r: "open_read fs (param_path (params module)) = Inr old" by auto
    from run_module_check_mode_present[OF True f ex r] True ex show ?thesis by simp
  qed
next
  case c: False
  show ?thesis
  proof (cases "os_path_exists fs (param_path (params module)) \<and> old = param_content (params module)")
    case True
    with pass have f: "param_force (params module)"
      and ex: "os_path_exists fs (param_path (params module))"
      and r: "open_read fs (param_path (params module)) = Inr (param_content (params module))"
      by auto
    from run_module_unchanged_content[OF c f ex r] c ex True show ?thesis by simp
  next
    case False
    with pass have reach: "\<not> os_path_exists fs (param_path (params module)) \<or>
     (param_force (params module) \<and> open_read fs (param_path (params module)) = Inr old \<and>
      old \<noteq> param_content (params module))" by auto
    obtain b warns fs1 where bk:
      "(if param_backup (params module) \<and> os_path_exists fs (param_path (params module))
        then create_backup module fs (param_path (params module)) else (None, [], fs))
         = (b, warns, fs1)"
      by (metis prod.collapse)
    note s = run_module_write_summary[OF c reach bk]
    from s have d: "\<forall>r. result_of (fst (run_module module fs)) = Some r \<longrightarrow>
           diff r = (if diff_mode module
                     then Some (if os_path_exists fs (param_path (params module))
                                then Some \<lparr>before = old, after = param_content (params module)\<rparr>
                                else None)
                     else None)" by blast
    from s have "(\<exists>r. fst (run_module module fs) = exit_json r)
        \<or> (\<exists>e r. fst (run_module module fs)
                       = fail_json (CannotWriteFile (param_path (params module)) e) r)
        \<or> (\<exists>u. fst (run_module module fs) = uncaught (UnicodeEncodeError u))" by blast
    then have h: "result_of (fst (run_module module fs)) \<noteq> None \<or>
          (\<exists>u. fst (run_module module fs) = uncaught (UnicodeEncodeError u))" by auto
    from d h c show ?thesis by simp
  qed
qed

section \<open>The claims\<close>







text \<open>
  C3: for every invocation with force=false where the target file already exists, whatever
  its content, the run fails with a PreconditionFailed error and the filesystem is left as
  it was, the file keeping its content.
\<close>

theorem force_no_existing:
  assumes "\<not> param_force (params module)"
    and "os_path_exists fs (param_path (params module))"
  shows "run_module module fs =
           (fail_json (FileExistsForceNo (param_path (params module))) initial_result, [], fs)
         \<and> kind (FileExistsForceNo (param_path (params module))) = PreconditionFailed
         \<and> file_content (snd (snd (run_module module fs))) (param_path (params module))
             = file_content fs (param_path (params module))"
  using assms by (simp add: run_module_force_no)

theorem force_no_existing_witness:
  "\<not> param_force (params (example_module\<lparr>params := example_params\<lparr>param_force := False, param_content := ''hello''\<rparr>\<rparr>))
   \<and> os_path_exists example_fs ''/tmp/a.txt''
   \<and> run_module (example_module\<lparr>params := example_params\<lparr>param_force := False, param_content := ''hello''\<rparr>\<rparr>) example_fs
       = (fail_json (FileExistsForceNo ''/tmp/a.txt'') initial_result, [], example_fs)
   \<and> file_content (snd (snd (run_module (example_module\<lparr>params := example_params\<lparr>param_force := False, param_content := ''hello''\<rparr>\<rparr>) example_fs))) ''/tmp/a.txt''
       = Some ''hello''"
proof -
  have f: "\<not> param_force (params (example_module\<lparr>params := example_params\<lparr>param_force := False, param_content := ''hello''\<rparr>\<rparr>))"
    by (simp add: example_defs)
  have p: "param_path (params (example_module\<lparr>params := example_params\<lparr>param_force := False, param_content := ''hello''\<rparr>\<rparr>)) = ''/tmp/a.txt''"
    by (simp add: example_defs)
  have e: "os_path_exists example_fs (param_path (params (example_module\<lparr>params := example_params\<lparr>param_force := False, param_content := ''hello''\<rparr>\<rparr>)))"
    by (simp add: example_defs os_path_exists_def)
  have c: "file_content example_fs ''/tmp/a.txt'' = Some ''hello''"
    by (simp add: example_defs file_content_def)
  show ?thesis
    using force_no_existing [OF f e] f e c unfolding p by simp
qed







text \<open>
  C6: a failure while creating the backup copy is not fatal: it becomes a logged warning,
  the result names no backup path, and the run goes on to the content write on the
  filesystem as it was, so its outcome is that of the write.
\<close>

theorem backup_failure_nonfatal:
  assumes "\<not> check_mode module" and "param_force (params module)"
    and "param_backup (params module)"
    and "os_path_exists fs (param_path (params module))"
    and "open_read fs (param_path (params module)) = Inr old"
    and "old \<noteq> param_content (params module)"
    and "backup_local module fs (param_path (params module)) = Inl e"
  shows "create_backup module fs (param_path (params module)) = (None, [BackupNotCreated e], fs)
     \<and> fst (snd (run_module module fs)) = [BackupNotCreated e]
     \<and> (\<forall>r. result_of (fst (run_module module fs)) = Some r \<longrightarrow> res_backup_file r = None)
     \<and> ((fst (write_file module fs (param_path (params module)) (param_content (params module)))
            = Inr (True, None)
          \<and> (\<exists>r. fst (run_module module fs) = exit_json r)
          \<and> file_content (snd (snd (run_module module fs))) (param_path (params module))
              = Some (param_content (params module)))
        \<or> (\<exists>e'. fst (write_file module fs (param_path (params module)) (param_content (params module)))
                  = Inr (False, Some e')
             \<and> (\<exists>r. fst (run_module module fs)
                       = fail_json (CannotWriteFile (param_path (params module)) e') r))
        \<or> (\<exists>u. fst (write_file module fs (param_path (params module)) (param_content (params module)))
                  = Inl (UnicodeEncodeError u)
             \<and> fst (run_module module fs) = uncaught (UnicodeEncodeError u)))"
proof -
  have cb: "create_backup module fs (param_path (params module)) = (None, [BackupNotCreated e], fs)"
    by (rule create_backup_raises[OF assms(4) assms(7)])
  have reach: "\<not> os_path_exists fs (param_path (params module)) \<or>
     (param_force (params module) \<and> open_read fs (param_path (params module)) = Inr old \<and>
      old \<noteq> param_content (params module))"
    using assms by simp
  have bk: "(if param_backup (params module) \<and> os_path_exists fs (param_path (params module))
          then create_backup module fs (param_path (params module)) else (None, [], fs))
           = (None, [BackupNotCreated e], fs)"
    using assms(3,4) cb by simp
  note s = run_module_write_summary[OF assms(1) reach bk]
  from s have w: "fst (snd (run_module module fs)) = [BackupNotCreated e]" by blast
  from s have b: "\<forall>r. result_of (fst (run_module module fs)) = Some r \<longrightarrow> res_backup_file r = None"
    by simp
  from s have t: "(fst (write_file module fs (param_path (params module)) (param_content (params module)))
            = Inr (True, None)
          \<and> (\<exists>r. fst (run_module module fs) = exit_json r)
          \<and> file_content (snd (snd (run_module module fs))) (param_path (params module))
              = Some (param_content (params module)))
        \<or> (\<exists>e'. fst (write_file module fs (param_path (params module)) (param_content (params module)))
                  = Inr (False, Some e')
             \<and> (\<exists>r. fst (run_module module fs)
                       = fail_json (CannotWriteFile (param_path (params module)) e') r))
        \<or> (\<exists>u. fst (write_file module fs (param_path (params module)) (param_content (params module)))
                  = Inl (UnicodeEncodeError u)
             \<and> fst (run_module module fs) = uncaught (UnicodeEncodeError u))"
    by blast
  from cb w b t show ?thesis by blast
qed

theorem backup_failure_nonfatal_witness:
  "backup_local (example_module\<lparr>backup_error := Some ''Operation not permitted''\<rparr>) example_fs ''/tmp/a.txt''
     = Inl ''Operation not permitted''
   \<and> open_read example_fs ''/tmp/a.txt'' = Inr ''hello''
   \<and> run_module (example_module\<lparr>backup_error := Some ''Operation not permitted''\<rparr>) example_fs
       = (exit_json \<lparr>changed = True, res_path = ''/tmp/a.txt'', res_content = ''world'',
                      res_backup_file = None, diff = None\<rparr>,
          [BackupNotCreated ''Operation not permitted''],
          snd (snd (run_module (example_module\<lparr>backup_error := Some ''Operation not permitted''\<rparr>) example_fs)))
   \<and> file_content (snd (snd (run_module (example_module\<lparr>backup_error := Some ''Operation not permitted''\<rparr>) example_fs)))
        ''/tmp/a.txt'' = Some ''world''"
proof -
  let ?m = "example_module\<lparr>backup_error := Some ''Operation not permitted''\<rparr>"
  have h1: "\<not> check_mode ?m" by (simp add: example_defs)
  have h2: "param_force (params ?m)" by (simp add: example_defs)
  have h3: "param_backup (params ?m)" by (simp add: example_defs)
  have h4: "os_path_exists example_fs (param_path (params ?m))"
    by (simp add: example_defs os_path_exists_def)
  have h5: "open_read example_fs (param_path (params ?m)) = Inr ''hello''"
    by (simp add: example_defs open_read_def)
  have h6: "''hello'' \<noteq> param_content (params ?m)" by (simp add: example_defs)
  have h7: "backup_local ?m example_fs (param_path (params ?m)) = Inl ''Operation not permitted''"
    by (simp add: example_defs backup_local_def)
  show ?thesis
    using backup_failure_nonfatal [OF h1 h2 h3 h4 h5 h6 h7]
    by (simp add: model_defs example_defs)
qed

text \<open>
  C7: for every run without check mode that reaches the write step, the requested content
  replaces whatever the file held (it is not appended): where the operating system refuses
  nothing the run succeeds and the file holds exactly the requested content. A failure of
  the write is fatal: when the operating system refuses, the run fails with an IOError
  whose message carries its error text (a refused open leaves the file as it was), and a
  content that cannot be encoded ends the run with the exception.
\<close>

theorem write_step:
  assumes nc: "\<not> check_mode module"
    and reach: "\<not> os_path_exists fs (param_path (params module)) \<or>
     (param_force (params module) \<and> open_read fs (param_path (params module)) = Inr old \<and>
      old \<noteq> param_content (params module))"
  shows "((fst (write_file module (before_write module fs)
                  (param_path (params module)) (param_content (params module)))
             = Inr (True, None)
           \<and> (\<exists>r. fst (run_module module fs) = exit_json r)
           \<and> file_content (snd (snd (run_module module fs))) (param_path (params module))
               = Some (param_content (params module)))
         \<or> (\<exists>e. fst (write_file module (before_write module fs)
                        (param_path (params module)) (param_content (params module)))
                   = Inr (False, Some e)
              \<and> (\<exists>r. fst (run_module module fs)
                        = fail_json (CannotWriteFile (param_path (params module)) e) r)
              \<and> kind (CannotWriteFile (param_path (params module)) e) = IOError)
         \<or> (\<exists>u. fst (write_file module (before_write module fs)
                        (param_path (params module)) (param_content (params module)))
                   = Inl (UnicodeEncodeError u)
              \<and> fst (run_module module fs) = uncaught (UnicodeEncodeError u)
              \<and> encode_fault fs (param_content (params module)) = Some u))
     \<and> (open_fault fs (param_path (params module)) = None \<and>
        write_fault fs (param_path (params module)) = None \<and>
        encode_fault fs (param_content (params module)) = None \<and>
        (dirname (param_path (params module)) = [] \<or>
         (\<exists>m. nodes fs (dirname (param_path (params module))) = Some (Dir m))) \<and>
        param_path (params module) \<noteq> [] \<longrightarrow>
          (\<exists>r. fst (run_module module fs) = exit_json r) \<and>
          file_content (snd (snd (run_module module fs))) (param_path (params module))
            = Some (param_content (params module)))
     \<and> (\<forall>e. open_fault fs (param_path (params module)) = Some e \<and>
        os_path_exists fs (dirname (param_path (params module))) \<and>
        param_path (params module) \<noteq> [] \<longrightarrow>
          (\<exists>r. fst (run_module module fs)
                  = fail_json (CannotWriteFile (param_path (params module)) e) r) \<and>
          file_content (snd (snd (run_module module fs))) (param_path (params module))
            = file_content fs (param_path (params module)))"
proof -
  let ?p = "param_path (params module)"
  let ?c = "param_content (params module)"
  let ?f = "before_write module fs"
  obtain b warns fs1 where bk: "(if param_backup (params module) \<and> os_path_exists fs ?p
          then create_backup module fs ?p else (None, [], fs)) = (b, warns, fs1)"
    by (metis prod.collapse)
  then have f1: "?f = fs1" by (simp add: before_write_def)
  note fr = before_write_frame[of module fs]
  from fr have ef: "encode_fault ?f = encode_fault fs" by blast
  from fr have np: "nodes ?f ?p = nodes fs ?p"
    using backup_path_neq[of module ?p] by metis
  from fr have nd: "nodes ?f (dirname ?p) = nodes fs (dirname ?p)"
    using backup_path_not_dirname[of module ?p] by metis
  from run_module_write_summary[OF nc reach bk]
  have T: "(fst (write_file module ?f ?p ?c) = Inr (True, None)
           \<and> (\<exists>r. fst (run_module module fs) = exit_json r)
           \<and> file_content (snd (snd (run_module module fs))) ?p = Some ?c)
         \<or> (\<exists>e. fst (write_file module ?f ?p ?c) = Inr (False, Some e)
              \<and> (\<exists>r. fst (run_module module fs) = fail_json (CannotWriteFile ?p e) r))
         \<or> (\<exists>u. fst (write_file module ?f ?p ?c) = Inl (UnicodeEncodeError u)
              \<and> fst (run_module module fs) = uncaught (UnicodeEncodeError u)
              \<and> encode_fault ?f ?c = Some u)"
    unfolding f1 by blast
  have P1: "(\<exists>r. fst (run_module module fs) = exit_json r) \<and>
          file_content (snd (snd (run_module module fs))) ?p = Some ?c"
    if h: "open_fault fs ?p = None" "write_fault fs ?p = None" "encode_fault fs ?c = None"
      "dirname ?p = [] \<or> (\<exists>m. nodes fs (dirname ?p) = Some (Dir m))" "?p \<noteq> []"
  proof -
    from fr h have faults: "open_fault ?f ?p = None" "write_fault ?f ?p = None"
      "encode_fault ?f ?c = None" by simp_all
    from h(4) nd have dirs: "dirname ?p = [] \<or> (\<exists>m. nodes ?f (dirname ?p) = Some (Dir m))"
      by simp
    have "fst (write_file module ?f ?p ?c) = Inr (True, None)"
    proof (cases "nodes fs ?p")
      case None
      with np have "nodes ?f ?p = None" by simp
      from write_file_creates[OF this h(5) dirs faults] show ?thesis by simp
    next
      case (Some n)
      with reach h(5) obtain s a where "nodes fs ?p = Some (File s a)"
        using open_read_Inr_file by (fastforce simp: os_path_exists_def)
      with np have n: "nodes ?f ?p = Some (File s a)" by simp
      from dirs have "dirname ?p = [] \<or> os_path_exists ?f (dirname ?p)"
        by (auto simp: os_path_exists_def)
      from write_file_overwrites[OF n h(5) this faults] show ?thesis by simp
    qed
    with T show ?thesis by auto
  qed
  have P2: "(\<exists>r. fst (run_module module fs) = fail_json (CannotWriteFile ?p e) r) \<and>
          file_content (snd (snd (run_module module fs))) ?p = file_content fs ?p"
    if h: "open_fault fs ?p = Some e" "os_path_exists fs (dirname ?p)" "?p \<noteq> []" for e
  proof -
    from fr h have of: "open_fault ?f ?p = Some e" by simp
    from h(2) nd have "dirname ?p = [] \<or> os_path_exists ?f (dirname ?p)"
      by (simp add: os_path_exists_def)
    from write_file_open_refused[OF h(3) this of]
    have w: "write_file module ?f ?p ?c = (Inr (False, Some e), ?f)" .
    with T have r: "\<exists>r. fst (run_module module fs) = fail_json (CannotWriteFile ?p e) r"
      by auto
    obtain wv fs2 where wr: "write_file module fs1 ?p ?c = (wv, fs2)" by (metis prod.collapse)
    with w f1 have wv: "wv = Inr (False, Some e)" "fs2 = fs1" by simp_all
    from run_module_write_outcome[OF nc reach bk wr] wv
    have "snd (snd (run_module module fs)) = fs1" by simp
    with f1 np have "file_content (snd (snd (run_module module fs))) ?p = file_content fs ?p"
      by (simp add: file_content_def)
    with r show ?thesis by simp
  qed
  from T ef have T': "(fst (write_file module ?f ?p ?c) = Inr (True, None)
           \<and> (\<exists>r. fst (run_module module fs) = exit_json r)
           \<and> file_content (snd (snd (run_module module fs))) ?p = Some ?c)
         \<or> (\<exists>e. fst (write_file module ?f ?p ?c) = Inr (False, Some e)
              \<and> (\<exists>r. fst (run_module module fs) = fail_json (CannotWriteFile ?p e) r)
              \<and> kind (CannotWriteFile ?p e) = IOError)
         \<or> (\<exists>u. fst (write_file module ?f ?p ?c) = Inl (UnicodeEncodeError u)
              \<and> fst (run_module module fs) = uncaught (UnicodeEncodeError u)
              \<and> encode_fault fs ?c = Some u)"
    by auto
  show ?thesis
  proof (intro conjI allI impI)
    show "(fst (write_file module ?f ?p ?c) = Inr (True, None)
           \<and> (\<exists>r. fst (run_module module fs) = exit_json r)
           \<and> file_content (snd (snd (run_module module fs))) ?p = Some ?c)
         \<or> (\<exists>e. fst (write_file module ?f ?p ?c) = Inr (False, Some e)
              \<and> (\<exists>r. fst (run_module module fs) = fail_json (CannotWriteFile ?p e) r)
              \<and> kind (CannotWriteFile ?p e) = IOError)
         \<or> (\<exists>u. fst (write_file module ?f ?p ?c) = Inl (UnicodeEncodeError u)
              \<and> fst (run_module module fs) = uncaught (UnicodeEncodeError u)
              \<and> encode_fault fs ?c = Some u)" by (rule T')
  next
    assume a: "open_fault fs ?p = None \<and> write_fault fs ?p = None \<and>
        encode_fault fs ?c = None \<and>
        (dirname ?p = [] \<or> (\<exists>m. nodes fs (dirname ?p) = Some (Dir m))) \<and> ?p \<noteq> []"
    then have "(\<exists>r. fst (run_module module fs) = exit_json r) \<and>
          file_content (snd (snd (run_module module fs))) ?p = Some ?c"
      using P1 by blast
    then show "\<exists>r. fst (run_module module fs) = exit_json r"
      and "file_content (snd (snd (run_module module fs))) ?p = Some ?c" by blast+
  next
    fix e
    assume a: "open_fault fs ?p = Some e \<and> os_path_exists fs (dirname ?p) \<and> ?p \<noteq> []"
    then have "(\<exists>r. fst (run_module module fs) = fail_json (CannotWriteFile ?p e) r) \<and>
          file_content (snd (snd (run_module module fs))) ?p = file_content fs ?p"
      using P2 by blast
    then show "\<exists>r. fst (run_module module fs) = fail_json (CannotWriteFile ?p e) r"
      and "file_content (snd (snd (run_module module fs))) ?p = file_content fs ?p" by blast+
  qed
qed

theorem write_step_witness:
  "\<not> check_mode (example_module\<lparr>params := example_params\<lparr>param_content := ''hi''\<rparr>\<rparr>)
   \<and> open_read example_fs ''/tmp/a.txt'' = Inr ''hello''
   \<and> file_content example_fs ''/tmp/a.txt'' = Some ''hello''
   \<and> fst (run_module (example_module\<lparr>params := example_params\<lparr>param_content := ''hi''\<rparr>\<rparr>) example_fs)
       = exit_json \<lparr>changed = True, res_path = ''/tmp/a.txt'', res_content = ''hi'',
                     res_backup_file = Some ''/tmp/a.txt.12345.2024-01-01@12:00:00~'',
                     diff = None\<rparr>
   \<and> file_content (snd (snd (run_module
          (example_module\<lparr>params := example_params\<lparr>param_content := ''hi''\<rparr>\<rparr>) example_fs)))
        ''/tmp/a.txt'' = Some ''hi''
   \<and> fst (run_module example_module
            (example_fs\<lparr>write_fault := [''/tmp/a.txt'' \<mapsto> (''No space left on device'', 2)]\<rparr>))
       = fail_json (CannotWriteFile ''/tmp/a.txt'' ''No space left on device'')
           \<lparr>changed = True, res_path = ''/tmp/a.txt'', res_content = ''world'',
             res_backup_file = Some ''/tmp/a.txt.12345.2024-01-01@12:00:00~'', diff = None\<rparr>
   \<and> fst (run_module (example_module\<lparr>params := example_params\<lparr>param_path := ''/srv/app/b.txt''\<rparr>\<rparr>)
            example_fs)
       = exit_json \<lparr>changed = True, res_path = ''/srv/app/b.txt'', res_content = ''world'',
                     res_backup_file = None, diff = None\<rparr>
   \<and> file_content (snd (snd (run_module
          (example_module\<lparr>params := example_params\<lparr>param_path := ''/srv/app/b.txt''\<rparr>\<rparr>)
          example_fs))) ''/srv/app/b.txt'' = Some ''world''"
proof -
  let ?m1 = "example_module\<lparr>params := example_params\<lparr>param_content := ''hi''\<rparr>\<rparr>"
  let ?f2 = "example_fs\<lparr>write_fault := [''/tmp/a.txt'' \<mapsto> (''No space left on device'', 2)]\<rparr>"
  let ?m3 = "example_module\<lparr>params := example_params\<lparr>param_path := ''/srv/app/b.txt''\<rparr>\<rparr>"
  have a1: "\<not> check_mode ?m1" by (simp add: example_defs)
  have a2: "\<not> os_path_exists example_fs (param_path (params ?m1)) \<or>
     (param_force (params ?m1) \<and>
      open_read example_fs (param_path (params ?m1)) = Inr ''hello'' \<and>
      ''hello'' \<noteq> param_content (params ?m1))"
    by (simp add: example_defs open_read_def)
  have b1: "\<not> check_mode example_module" by (simp add: example_defs)
  have b2: "\<not> os_path_exists ?f2 (param_path (params example_module)) \<or>
     (param_force (params example_module) \<and>
      open_read ?f2 (param_path (params example_module)) = Inr ''hello'' \<and>
      ''hello'' \<noteq> param_content (params example_module))"
    by (simp add: example_defs open_read_def)
  have c1: "\<not> check_mode ?m3" by (simp add: example_defs)
  have c2: "\<not> os_path_exists example_fs (param_path (params ?m3)) \<or>
     (param_force (params ?m3) \<and>
      open_read example_fs (param_path (params ?m3)) = Inr ''hello'' \<and>
      ''hello'' \<noteq> param_content (params ?m3))"
    by (simp add: example_defs os_path_exists_def)
  show ?thesis
    using write_step [OF a1 a2] write_step [OF b1 b2] write_step [OF c1 c2] a1
    by (simp add: model_defs example_defs makedirs_def path_prefixes_def is_file_def)
qed

text \<open>
  C8: the diff key is in the result only when diff reporting applies (check mode or diff
  mode), and a before/after pair is captured only when the target file exists: it holds
  the file's text and the requested content. When the file does not exist or diff
  reporting does not apply, no pair is reported.
\<close>

theorem diff_reporting:
  "(\<forall>r. result_of (fst (run_module module fs)) = Some r \<longrightarrow>
      (diff r \<noteq> None \<longrightarrow> diff_mode module \<or> check_mode module))
   \<and> (\<forall>r d. result_of (fst (run_module module fs)) = Some r \<and> diff r = Some (Some d) \<longrightarrow>
         (diff_mode module \<or> check_mode module) \<and>
         os_path_exists fs (param_path (params module)) \<and>
         open_read fs (param_path (params module)) = Inr (before d) \<and>
         after d = param_content (params module))
   \<and> (\<not> os_path_exists fs (param_path (params module)) \<or>
       \<not> (diff_mode module \<or> check_mode module) \<longrightarrow>
       (\<forall>r d. result_of (fst (run_module module fs)) = Some r \<longrightarrow> diff r \<noteq> Some (Some d)))
   \<and> ((diff_mode module \<or> check_mode module) \<and>
       os_path_exists fs (param_path (params module)) \<and> param_force (params module) \<and>
       open_read fs (param_path (params module)) = Inr old \<longrightarrow>
       (\<forall>r. result_of (fst (run_module module fs)) = Some r \<longrightarrow>
          diff r = Some (Some \<lparr>before = old, after = param_content (params module)\<rparr>))
       \<and> (result_of (fst (run_module module fs)) \<noteq> None \<or>
          (\<not> check_mode module \<and>
           (\<exists>u. fst (run_module module fs) = uncaught (UnicodeEncodeError u)))))"
proof (cases "os_path_exists fs (param_path (params module)) \<and>
    (\<not> param_force (params module) \<or> isl (open_read fs (param_path (params module))))")
  case True
  then have "diff r = None" if "result_of (fst (run_module module fs)) = Some r" for r
    using result_diff_early that by blast
  with True show ?thesis by auto
next
  case False
  then obtain old' where pass: "\<not> os_path_exists fs (param_path (params module)) \<or>
     (param_force (params module) \<and> open_read fs (param_path (params module)) = Inr old')"
    by (cases "open_read fs (param_path (params module))") auto
  note p = result_diff_passed[OF pass]
  from p have d: "diff r = (if diff_mode module \<or> check_mode module
                     then Some (if os_path_exists fs (param_path (params module))
                                then Some \<lparr>before = old', after = param_content (params module)\<rparr>
                                else None)
                     else None)"
    if "result_of (fst (run_module module fs)) = Some r" for r
    using that by blast
  from p have h: "result_of (fst (run_module module fs)) \<noteq> None \<or>
          (\<not> check_mode module \<and>
           (\<exists>u. fst (run_module module fs) = uncaught (UnicodeEncodeError u)))" by blast
  show ?thesis
  proof (intro conjI allI impI)
    fix r
    assume "result_of (fst (run_module module fs)) = Some r" "diff r \<noteq> None"
    with d[of r] show "diff_mode module \<or> check_mode module" by (auto split: if_splits)
  next
    fix r dd
    assume a: "result_of (fst (run_module module fs)) = Some r \<and> diff r = Some (Some dd)"
    with d[of r] pass
    show "diff_mode module \<or> check_mode module"
      "os_path_exists fs (param_path (params module))"
      "open_read fs (param_path (params module)) = Inr (before dd)"
      "after dd = param_content (params module)"
      by (auto split: if_splits)
  next
    fix r dd
    assume "\<not> os_path_exists fs (param_path (params module)) \<or>
       \<not> (diff_mode module \<or> check_mode module)"
      "result_of (fst (run_module module fs)) = Some r"
    with d[of r] show "diff r \<noteq> Some (Some dd)" by (auto split: if_splits)
  next
    fix r
    assume "(diff_mode module \<or> check_mode module) \<and>
       os_path_exists fs (param_path (params module)) \<and> param_force (params module) \<and>
       open_read fs (param_path (params module)) = Inr old"
      "result_of (fst (run_module module fs)) = Some r"
    with d[of r] pass
    show "diff r = Some (Some \<lparr>before = old, after = param_content (params module)\<rparr>)"
      by auto
  next
    show "result_of (fst (run_module module fs)) \<noteq> None \<or>
          (\<not> check_mode module \<and>
           (\<exists>u. fst (run_module module fs) = uncaught (UnicodeEncodeError u)))"
      by (rule h)
  qed
qed

theorem diff_reporting_witness:
  "result_of (fst (run_module (example_module\<lparr>diff_mode := True\<rparr>) example_fs))
     = Some \<lparr>changed = True, res_path = ''/tmp/a.txt'', res_content = ''world'',
              res_backup_file = Some ''/tmp/a.txt.12345.2024-01-01@12:00:00~'',
              diff = Some (Some \<lparr>before = ''hello'', after = ''world''\<rparr>)\<rparr>
   \<and> diff_mode (example_module\<lparr>diff_mode := True\<rparr>)
   \<and> os_path_exists example_fs ''/tmp/a.txt''
   \<and> open_read example_fs ''/tmp/a.txt'' = Inr ''hello''
   \<and> map_option diff (result_of (fst (run_module example_module example_fs))) = Some None"
  using diff_reporting [of "example_module\<lparr>diff_mode := True\<rparr>" example_fs "''hello''"]
    diff_reporting [of example_module example_fs "''hello''"]
  by (simp add: model_defs example_defs)

text \<open>
  C9: when the run fails at the force precondition or at reading the existing file, the
  result attached to the failure holds the initial values: the empty path, the empty
  content and changed=false, not the request's path and content.
\<close>

theorem early_failure_result:
  "(\<not> param_force (params module) \<and> os_path_exists fs (param_path (params module)) \<longrightarrow>
      fst (run_module module fs) =
        fail_json (FileExistsForceNo (param_path (params module)))
          \<lparr>changed = False, res_path = [], res_content = [], res_backup_file = None, diff = None\<rparr>
      \<and> map_option res_path (result_of (fst (run_module module fs)))
          \<noteq> Some (param_path (params module)))
   \<and> (param_force (params module) \<and> os_path_exists fs (param_path (params module)) \<and>
      open_read fs (param_path (params module)) = Inl (OSError e) \<longrightarrow>
      fst (run_module module fs) =
        fail_json (CannotReadExisting (param_path (params module)) e)
          \<lparr>changed = False, res_path = [], res_content = [], res_backup_file = None, diff = None\<rparr>
      \<and> map_option res_path (result_of (fst (run_module module fs)))
          \<noteq> Some (param_path (params module)))"
  by (auto simp: run_module_force_no run_module_read_error initial_result_def os_path_exists_def)

theorem early_failure_result_witness:
  "fst (run_module (example_module\<lparr>params := example_params\<lparr>param_force := False\<rparr>\<rparr>) example_fs) =
     fail_json (FileExistsForceNo ''/tmp/a.txt'')
       \<lparr>changed = False, res_path = [], res_content = [], res_backup_file = None, diff = None\<rparr>
   \<and> os_path_exists example_fs ''/tmp/a.txt''
   \<and> open_read (example_fs\<lparr>read_fault := [''/tmp/a.txt'' \<mapsto> ''Permission denied'']\<rparr>) ''/tmp/a.txt''
       = Inl (OSError ''Permission denied'')
   \<and> fst (run_module example_module (example_fs\<lparr>read_fault := [''/tmp/a.txt'' \<mapsto> ''Permission denied'']\<rparr>)) =
     fail_json (CannotReadExisting ''/tmp/a.txt'' ''Permission denied'')
       \<lparr>changed = False, res_path = [], res_content = [], res_backup_file = None, diff = None\<rparr>"
  using early_failure_result [of "example_module\<lparr>params := example_params\<lparr>param_force := False\<rparr>\<rparr>" example_fs]
    early_failure_result [of example_module "example_fs\<lparr>read_fault := [''/tmp/a.txt'' \<mapsto> ''Permission denied'']\<rparr>" "''Permission denied''"]
  by (simp add: example_defs os_path_exists_def open_read_def)

text \<open>
  C10: a read error while capturing the diff is swallowed: \<open>get_file_diff\<close> returns no
  diff instead of failing, whereas a failure of the main read of the content is fatal.
\<close>

theorem diff_read_error_swallowed:
  "(os_path_exists fs p \<and> open_read fs p = Inl (OSError e) \<longrightarrow>
      get_file_diff module fs p c = Inr None)
   \<and> (param_force (params module) \<and> os_path_exists fs (param_path (params module)) \<and>
      open_read fs (param_path (params module)) = Inl (OSError e') \<longrightarrow>
      fst (run_module module fs) =
        fail_json (CannotReadExisting (param_path (params module)) e') initial_result
      \<and> kind (CannotReadExisting (param_path (params module)) e') = IOError)"
  by (auto simp: get_file_diff_def run_module_read_error)

theorem diff_read_error_swallowed_witness:
  "os_path_exists (example_fs\<lparr>read_fault := [''/tmp/a.txt'' \<mapsto> ''Input/output error'']\<rparr>) ''/tmp/a.txt''
   \<and> open_read (example_fs\<lparr>read_fault := [''/tmp/a.txt'' \<mapsto> ''Input/output error'']\<rparr>) ''/tmp/a.txt''
       = Inl (OSError ''Input/output error'')
   \<and> get_file_diff example_module (example_fs\<lparr>read_fault := [''/tmp/a.txt'' \<mapsto> ''Input/output error'']\<rparr>)
       ''/tmp/a.txt'' ''world'' = Inr None
   \<and> fst (run_module example_module (example_fs\<lparr>read_fault := [''/tmp/a.txt'' \<mapsto> ''Input/output error'']\<rparr>)) =
       fail_json (CannotReadExisting ''/tmp/a.txt'' ''Input/output error'') initial_result"
  using diff_read_error_swallowed [of "example_fs\<lparr>read_fault := [''/tmp/a.txt'' \<mapsto> ''Input/output error'']\<rparr>"
      "''/tmp/a.txt''" "''Input/output error''" example_module "''world''" "''Input/output error''"]
  by (simp add: example_defs os_path_exists_def open_read_def)

end
